theory Spec2Isabelle
  imports Main "HOL-Library.Sublist"
begin

section \<open>Data model of the feature store\<close>

text \<open>
  A data kind (\<^verbatim>\<open>ld.VersionedDataKind\<close>) is known to the store only through its
  namespace. An item (\<^verbatim>\<open>ld.VersionedData\<close>) exposes its key, its version and its
  deletion flag; the rest of it is an opaque payload. A nil item is \<open>None\<close>.
\<close>

datatype kind = Kind (GetNamespace: string)

record item =
  GetKey :: string
  GetVersion :: int
  IsDeleted :: bool
  payload :: string

text \<open>
  Go errors as values. \<open>RedisNil\<close> is the client's sentinel \<^verbatim>\<open>r.Nil\<close> (the reply
  of a read that found nothing); \<open>RedisError\<close> is any other error handed back by the
  client. The three \<open>FailedTo...\<close> constructors are the errors built by
  \<^verbatim>\<open>fmt.Errorf\<close> in \<^verbatim>\<open>redis.go\<close>, keeping the arguments that are formatted into them.
\<close>

datatype error =
    RedisNil
  | RedisError string
  | JsonError string
  | FailedToUnmarshalKey kind string error
  | FailedToUnmarshal kind "error option"
  | FailedToMarshal kind string error

text \<open>
  Serialization is done by \<^verbatim>\<open>json.Marshal\<close> and \<^verbatim>\<open>utils.UnmarshalItem\<close>, which live
  outside \<^verbatim>\<open>redis.go\<close>; both may fail. They are a parameter of every operation.
\<close>

record codec =
  Marshal :: "item \<Rightarrow> error + string"
  UnmarshalItem :: "kind \<Rightarrow> string \<Rightarrow> error + item"

subsection \<open>Options\<close>

definition DefaultPrefix :: string where
  "DefaultPrefix = ''launchdarkly''"

text \<open>Durations are counted in nanoseconds, as \<^verbatim>\<open>time.Duration\<close> does.\<close>

definition DefaultCacheTTL :: int where
  "DefaultCacheTTL = 15 * 1000000000"

record redisFeatureStoreOptions =
  opt_prefix :: string
  opt_addr :: string
  opt_password :: string
  opt_cacheTTL :: int

datatype FeatureStoreOption =
    Prefix string
  | AddrPassword string string
  | CacheTTL int
  | Logger

fun apply_option :: "FeatureStoreOption \<Rightarrow> redisFeatureStoreOptions \<Rightarrow> redisFeatureStoreOptions" where
  "apply_option (Prefix p) opts =
     (if p = [] then opts\<lparr>opt_prefix := DefaultPrefix\<rparr> else opts\<lparr>opt_prefix := p\<rparr>)"
| "apply_option (AddrPassword a p) opts = opts\<lparr>opt_addr := a, opt_password := p\<rparr>"
| "apply_option (CacheTTL ttl) opts = opts\<lparr>opt_cacheTTL := ttl\<rparr>"
| "apply_option Logger opts = opts"

text \<open>No \<^verbatim>\<open>apply\<close> method returns an error, so \<^verbatim>\<open>validateOptions\<close> always succeeds.\<close>

definition validateOptions :: "FeatureStoreOption list \<Rightarrow> redisFeatureStoreOptions" where
  "validateOptions os =
     fold apply_option os
       \<lparr>opt_prefix = DefaultPrefix, opt_addr = [], opt_password = [],
        opt_cacheTTL = DefaultCacheTTL\<rparr>"

text \<open>
  The core of the store holds its options; its pool is taken to be a connected client,
  whose commands are the backend operations of the next section.
\<close>

record redisFeatureStoreCore =
  options :: redisFeatureStoreOptions

definition GetCacheTTL :: "redisFeatureStoreCore \<Rightarrow> int" where
  "GetCacheTTL st = opt_cacheTTL (options st)"

subsection \<open>Key naming\<close>

definition initedKey :: string where
  "initedKey = ''$inited''"

definition hashtag :: string where
  "hashtag = ''{ld}''"

definition featuresKey :: "redisFeatureStoreCore \<Rightarrow> kind \<Rightarrow> string" where
  "featuresKey st k = opt_prefix (options st) @ '':'' @ GetNamespace k @ ''.'' @ hashtag"

definition store_initedKey :: "redisFeatureStoreCore \<Rightarrow> string" where
  "store_initedKey st = opt_prefix (options st) @ '':'' @ initedKey @ ''.'' @ hashtag"

definition hashTagKey :: "string \<Rightarrow> string" where
  "hashTagKey key = key @ ''.'' @ hashtag"

text \<open>
  \<^verbatim>\<open>strings.Replace(s, old, "", -1)\<close>: scanning from the left, every occurrence of
  \<open>old\<close> that starts at the current position is dropped and the scan goes on behind
  it; any other character is copied. (With an empty \<open>old\<close> and an empty replacement
  the string comes back as it is.)
\<close>

function strings_Replace_all :: "string \<Rightarrow> string \<Rightarrow> string" where
  "strings_Replace_all old [] = []"
| "strings_Replace_all old (c # cs) =
     (if old \<noteq> [] \<and> prefix old (c # cs)
      then strings_Replace_all old (drop (length old) (c # cs))
      else c # strings_Replace_all old cs)"
  by pat_completeness auto
termination
  by (relation "measure (\<lambda>(old, s). length s)") auto

definition removeHashTagKey :: "string \<Rightarrow> string" where
  "removeHashTagKey key = strings_Replace_all (''.'' @ hashtag) key"

section \<open>The backend\<close>

text \<open>
  The Redis keyspace maps a key to a string or to a hash; a hash is kept as an
  association list of fields. Besides the keyspace, the backend state keeps the
  list of requests this client has sent, in order, so that a statement about
  which round-trips an operation makes can be read off the state.
\<close>

datatype rval = RStr string | RHash "(string \<times> string) list"

type_synonym redis = "string \<rightharpoonup> rval"

datatype cmd =
    HGET string string
  | HGETALL string
  | EXISTS string
  | WATCH string
  | DEL string
  | HSET string string string
  | SET string string
  | PIPE_EXEC "cmd list"
  | TX_EXEC "cmd list"

record backend =
  store :: redis
  sent :: "cmd list"

definition WrongType :: error where
  "WrongType = RedisError ''WRONGTYPE''"

definition hset_field :: "string \<Rightarrow> string \<Rightarrow> (string \<times> string) list \<Rightarrow> (string \<times> string) list" where
  "hset_field f v h = (if f \<in> fst ` set h then map (\<lambda>(a, b). if a = f then (a, v) else (a, b)) h
                       else h @ [(f, v)])"

text \<open>The effect of one write command on the keyspace, and the error it replies with.\<close>

fun apply_write :: "cmd \<Rightarrow> redis \<Rightarrow> error option \<times> redis" where
  "apply_write (DEL k) s = (None, s(k := None))"
| "apply_write (SET k v) s = (None, s(k \<mapsto> RStr v))"
| "apply_write (HSET k f v) s =
     (case s k of
        None \<Rightarrow> (None, s(k \<mapsto> RHash [(f, v)]))
      | Some (RHash h) \<Rightarrow> (None, s(k \<mapsto> RHash (hset_field f v h)))
      | Some (RStr _) \<Rightarrow> (Some WrongType, s))"
| "apply_write _ s = (None, s)"

text \<open>A batch runs its commands in order and reports the first error among them.\<close>

fun run_cmds :: "cmd list \<Rightarrow> redis \<Rightarrow> error option \<times> redis" where
  "run_cmds [] s = (None, s)"
| "run_cmds (c # cs) s =
     (case apply_write c s of (e, s') \<Rightarrow>
        (case run_cmds cs s' of (e', s'') \<Rightarrow>
           ((case e of Some x \<Rightarrow> Some x | None \<Rightarrow> e'), s'')))"

text \<open>
  Client calls. Each takes the fault the environment injects into that round-trip
  (\<open>None\<close>: the backend answers; \<open>Some e\<close>: the request fails with \<open>e\<close> and has no
  effect), and records the request.
\<close>

definition HGet :: "error option \<Rightarrow> string \<Rightarrow> string \<Rightarrow> backend \<Rightarrow> (error + string) \<times> backend" where
  "HGet fault k f b =
     ((case fault of
         Some e \<Rightarrow> Inl e
       | None \<Rightarrow>
          (case store b k of
             None \<Rightarrow> Inl RedisNil
           | Some (RStr _) \<Rightarrow> Inl WrongType
           | Some (RHash h) \<Rightarrow> (case map_of h f of None \<Rightarrow> Inl RedisNil | Some v \<Rightarrow> Inr v))),
      b\<lparr>sent := sent b @ [HGET k f]\<rparr>)"

text \<open>A failed \<^verbatim>\<open>HGetAll\<close> hands back an empty map next to its error.\<close>

definition HGetAll :: "error option \<Rightarrow> string \<Rightarrow> backend \<Rightarrow> ((string \<times> string) list \<times> error option) \<times> backend" where
  "HGetAll fault k b =
     ((case fault of
         Some e \<Rightarrow> ([], Some e)
       | None \<Rightarrow>
          (case store b k of
             None \<Rightarrow> ([], None)
           | Some (RStr _) \<Rightarrow> ([], Some WrongType)
           | Some (RHash h) \<Rightarrow> (h, None))),
      b\<lparr>sent := sent b @ [HGETALL k]\<rparr>)"

text \<open>A failed \<^verbatim>\<open>Exists\<close> hands back the zero count next to its error.\<close>

definition Exists :: "error option \<Rightarrow> string \<Rightarrow> backend \<Rightarrow> (int \<times> error option) \<times> backend" where
  "Exists fault k b =
     ((case fault of
         Some e \<Rightarrow> (0, Some e)
       | None \<Rightarrow> ((if store b k = None then 0 else 1), None)),
      b\<lparr>sent := sent b @ [EXISTS k]\<rparr>)"


text \<open>
  \<^verbatim>\<open>pipe.Exec()\<close> of a pipeline opened on a watching transaction. What the backend
  answers is the environment's choice: the queued commands are run and a result comes
  back (\<open>Exec_ok\<close>); nothing is run and the call yields neither a result nor an error
  (\<open>Exec_nil\<close>); or the call fails with an error and nothing is run (\<open>Exec_failed\<close>).
  The writes of other clients that land between this client's read and its commit
  are applied first. The call returns whether a result came back, and the error.
\<close>

datatype exec_reply = Exec_ok | Exec_nil | Exec_failed error

definition TxExec :: "exec_reply \<Rightarrow> (redis \<Rightarrow> redis) \<Rightarrow> cmd list \<Rightarrow> backend \<Rightarrow> (bool \<times> error option) \<times> backend" where
  "TxExec reply others cmds b =
     (let s = others (store b); log = sent b @ [TX_EXEC cmds] in
      case reply of
        Exec_ok \<Rightarrow> (case run_cmds cmds s of (e, s') \<Rightarrow> ((True, e), \<lparr>store = s', sent = log\<rparr>))
      | Exec_nil \<Rightarrow> ((False, None), \<lparr>store = s, sent = log\<rparr>)
      | Exec_failed e \<Rightarrow> ((False, Some e), \<lparr>store = s, sent = log\<rparr>))"

section \<open>The core operations of \<^verbatim>\<open>redis.go\<close>\<close>

text \<open>
  Every result that is a Go pair \<^verbatim>\<open>(value, error)\<close> is a pair of options here, so
  that \<^verbatim>\<open>(nil, nil)\<close> is a value of its own.
\<close>

definition GetInternal ::
  "codec \<Rightarrow> redisFeatureStoreCore \<Rightarrow> error option \<Rightarrow> kind \<Rightarrow> string \<Rightarrow> backend
     \<Rightarrow> (item option \<times> error option) \<times> backend" where
  "GetInternal cd st fault kind key b =
     (case HGet fault (featuresKey st kind) (hashTagKey key) b of (r, b') \<Rightarrow>
        (case r of
           Inl err \<Rightarrow> (if err = RedisNil then ((None, None), b') else ((None, Some err), b'))
         | Inr jsonStr \<Rightarrow>
            (case UnmarshalItem cd kind jsonStr of
               Inl jsonErr \<Rightarrow> ((None, Some (FailedToUnmarshalKey kind key jsonErr)), b')
             | Inr it \<Rightarrow> ((Some it, None), b'))))"

text \<open>
  The loop of \<^verbatim>\<open>GetAllInternal\<close> over the fields that were read. The error it
  formats on a decoding failure holds the error of the read, not the decoding error.
\<close>

fun getall_range ::
  "codec \<Rightarrow> kind \<Rightarrow> error option \<Rightarrow> (string \<times> string) list \<Rightarrow> (string \<rightharpoonup> item)
     \<Rightarrow> (string \<rightharpoonup> item) option \<times> error option" where
  "getall_range cd kind err [] results = (Some results, None)"
| "getall_range cd kind err ((k, v) # values) results =
     (case UnmarshalItem cd kind v of
        Inl jsonErr \<Rightarrow> (None, Some (FailedToUnmarshal kind err))
      | Inr it \<Rightarrow> getall_range cd kind err values (results(removeHashTagKey k \<mapsto> it)))"

definition GetAllInternal ::
  "codec \<Rightarrow> redisFeatureStoreCore \<Rightarrow> error option \<Rightarrow> kind \<Rightarrow> backend
     \<Rightarrow> ((string \<rightharpoonup> item) option \<times> error option) \<times> backend" where
  "GetAllInternal cd st fault kind b =
     (case HGetAll fault (featuresKey st kind) b of ((values, err), b') \<Rightarrow>
        if err \<noteq> None \<and> err \<noteq> Some RedisNil then ((None, err), b')
        else (getall_range cd kind err values Map.empty, b'))"




text \<open>
  What the environment does to one pass of the loop of \<^verbatim>\<open>UpsertInternal\<close>: the
  faults of the \<open>WATCH\<close>, of the read and of the staging of the \<open>HSET\<close>, the writes
  of other clients between the read and the commit, and the answer to \<open>Exec\<close>.
\<close>

record attempt_env =
  watch_fault :: "error option"
  hget_fault :: "error option"
  hset_fault :: "error option"
  concurrent :: "redis \<Rightarrow> redis"
  exec_reply :: exec_reply

text \<open>
  One pass: \<^verbatim>\<open>c.Watch(func ..., baseKey)\<close>. It yields the error of \<open>Watch\<close>, the
  variable \<open>item\<close>, the flag \<open>shouldContinueExecution\<close> and the backend. A failing
  \<open>WATCH\<close> returns its error without running the function.
\<close>

definition upsert_watch ::
  "codec \<Rightarrow> redisFeatureStoreCore \<Rightarrow> kind \<Rightarrow> item \<Rightarrow> attempt_env \<Rightarrow> item option \<Rightarrow> backend
     \<Rightarrow> error option \<times> item option \<times> bool \<times> backend" where
  "upsert_watch cd st kind newItem e item b =
     (let baseKey = featuresKey st kind;
          key = GetKey newItem;
          b0 = b\<lparr>sent := sent b @ [WATCH baseKey]\<rparr>
      in case watch_fault e of
           Some werr \<Rightarrow> (Some werr, item, False, b0)
         | None \<Rightarrow>
            (case GetInternal cd st (hget_fault e) kind key b0 of ((oldItem, err), b1) \<Rightarrow>
               if err \<noteq> None then (err, item, False, b1)
               else if (case oldItem of
                          None \<Rightarrow> False
                        | Some old \<Rightarrow> GetVersion old \<ge> GetVersion newItem)
               then (None, oldItem, False, b1)
               else
                 (case Marshal cd newItem of
                    Inl jsonErr \<Rightarrow> (Some (FailedToMarshal kind key jsonErr), item, False, b1)
                  | Inr data \<Rightarrow>
                     (case hset_fault e of
                        Some herr \<Rightarrow> (Some herr, item, False, b1)
                      | None \<Rightarrow>
                         (case TxExec (exec_reply e) (concurrent e)
                                 [HSET baseKey (hashTagKey key) data] b1 of
                            ((result, xerr), b2) \<Rightarrow>
                              if xerr = None \<and> \<not> result then (None, item, True, b2)
                              else (None, Some newItem, False, b2))))))"

text \<open>
  The \<^verbatim>\<open>for\<close> loop has no bound, so it is a partial function: \<open>None\<close> is the call
  that never returns. The environment of pass \<open>i\<close> is \<open>env i\<close>.
\<close>

partial_function (option) upsert_loop ::
  "codec \<Rightarrow> redisFeatureStoreCore \<Rightarrow> kind \<Rightarrow> item \<Rightarrow> (nat \<Rightarrow> attempt_env) \<Rightarrow> nat
     \<Rightarrow> item option \<Rightarrow> backend \<Rightarrow> ((item option \<times> error option) \<times> backend) option" where
  "upsert_loop cd st kind newItem env i item b =
     (case upsert_watch cd st kind newItem (env i) item b of
        (err, item', shouldContinueExecution, b') \<Rightarrow>
          if err \<noteq> None then Some ((None, err), b')
          else if \<not> shouldContinueExecution then Some ((item', None), b')
          else upsert_loop cd st kind newItem env (Suc i) item' b')"

definition UpsertInternal ::
  "codec \<Rightarrow> redisFeatureStoreCore \<Rightarrow> kind \<Rightarrow> item \<Rightarrow> (nat \<Rightarrow> attempt_env) \<Rightarrow> backend
     \<Rightarrow> ((item option \<times> error option) \<times> backend) option" where
  "UpsertInternal cd st kind newItem env b = upsert_loop cd st kind newItem env 0 None b"

definition InitializedInternal ::
  "redisFeatureStoreCore \<Rightarrow> error option \<Rightarrow> backend \<Rightarrow> bool \<times> backend" where
  "InitializedInternal st fault b =
     (case Exists fault (store_initedKey st) b of ((inited, _), b') \<Rightarrow> (inited = 1, b'))"


section \<open>The caching wrapper\<close>

text \<open>Modelled from the spec: the cache of the wrapper \<^verbatim>\<open>utils.FeatureStoreWrapper\<close>, which
  is not part of \<^verbatim>\<open>redis.go\<close>. An entry is a value with its expiry, kept per kind
  and key for single items and per kind for all items of a kind; an expiry of \<open>None\<close>
  is an entry that never expires.
\<close>

record cache =
  item_cache :: "(kind \<times> string) \<rightharpoonup> (item option \<times> int option)"
  all_cache :: "kind \<rightharpoonup> ((string \<rightharpoonup> item) \<times> int option)"

text \<open>Modelled from the spec: the cache of a wrapper that has not read or written yet.\<close>

definition empty_cache :: cache where
  "empty_cache = \<lparr>item_cache = Map.empty, all_cache = Map.empty\<rparr>"

text \<open>Modelled from the spec: an entry is served while the time is before its expiry.
\<close>

definition live :: "int \<Rightarrow> int option \<Rightarrow> bool" where
  "live now expiry = (case expiry of None \<Rightarrow> True | Some t \<Rightarrow> now < t)"

text \<open>Modelled from the spec: the computed expiry of a new entry; a negative TTL gives
  entries that never expire.
\<close>

definition expiry_for :: "int \<Rightarrow> int \<Rightarrow> int option" where
  "expiry_for ttl now = (if ttl < 0 then None else Some (now + ttl))"

text \<open>Modelled from the spec: the read path of \<open>Get\<close>. A zero TTL disables caching, so the
  read goes to the backend. Otherwise a live entry is returned without touching the
  backend; on a miss the wrapper calls through and stores the result with the
  computed expiry. On a backend error the cache is left as it is. The TTL is the
  one the core reports with \<open>GetCacheTTL\<close>; \<open>now\<close> is the time of the call.
\<close>

definition wrapper_Get ::
  "codec \<Rightarrow> redisFeatureStoreCore \<Rightarrow> int \<Rightarrow> error option \<Rightarrow> kind \<Rightarrow> string \<Rightarrow> cache \<times> backend
     \<Rightarrow> (item option \<times> error option) \<times> cache \<times> backend" where
  "wrapper_Get cd st now fault kind key cb =
     (case cb of (c, b) \<Rightarrow>
        if GetCacheTTL st = 0 then
          (case GetInternal cd st fault kind key b of (r, b') \<Rightarrow> (r, c, b'))
        else
          (case item_cache c (kind, key) of
             Some (v, expiry) \<Rightarrow>
               if live now expiry then ((v, None), c, b)
               else
                 (case GetInternal cd st fault kind key b of ((v', err), b') \<Rightarrow>
                    if err = None
                    then ((v', None),
                          c\<lparr>item_cache := (item_cache c)((kind, key) \<mapsto>
                                               (v', expiry_for (GetCacheTTL st) now))\<rparr>, b')
                    else ((v', err), c, b'))
           | None \<Rightarrow>
               (case GetInternal cd st fault kind key b of ((v', err), b') \<Rightarrow>
                  if err = None
                  then ((v', None),
                        c\<lparr>item_cache := (item_cache c)((kind, key) \<mapsto>
                                             (v', expiry_for (GetCacheTTL st) now))\<rparr>, b')
                  else ((v', err), c, b'))))"

text \<open>Modelled from the spec: the read path of \<open>GetAll\<close>, as for \<open>Get\<close>.\<close>

definition wrapper_All ::
  "codec \<Rightarrow> redisFeatureStoreCore \<Rightarrow> int \<Rightarrow> error option \<Rightarrow> kind \<Rightarrow> cache \<times> backend
     \<Rightarrow> ((string \<rightharpoonup> item) option \<times> error option) \<times> cache \<times> backend" where
  "wrapper_All cd st now fault kind cb =
     (case cb of (c, b) \<Rightarrow>
        if GetCacheTTL st = 0 then
          (case GetAllInternal cd st fault kind b of (r, b') \<Rightarrow> (r, c, b'))
        else
          (case (case all_cache c kind of
                   Some (m, expiry) \<Rightarrow> if live now expiry then Some m else None
                 | None \<Rightarrow> None) of
             Some m \<Rightarrow> ((Some m, None), c, b)
           | None \<Rightarrow>
               (case GetAllInternal cd st fault kind b of ((r, err), b') \<Rightarrow>
                  (case r of
                     Some m \<Rightarrow>
                       if err = None
                       then ((r, None),
                             c\<lparr>all_cache := (all_cache c)(kind \<mapsto>
                                                 (m, expiry_for (GetCacheTTL st) now))\<rparr>, b')
                       else ((r, err), c, b')
                   | None \<Rightarrow> ((r, err), c, b')))))"

text \<open>Modelled from the spec: the write path of \<open>Upsert\<close>. It always calls through; on
  success the entry of the key is updated with the returned item and the entry for
  all items of the kind is invalidated; on an error the cache is left as it is.
\<close>

definition wrapper_Upsert ::
  "codec \<Rightarrow> redisFeatureStoreCore \<Rightarrow> int \<Rightarrow> (nat \<Rightarrow> attempt_env) \<Rightarrow> kind \<Rightarrow> item \<Rightarrow> cache \<times> backend
     \<Rightarrow> (error option \<times> cache \<times> backend) option" where
  "wrapper_Upsert cd st now env kind newItem cb =
     (case cb of (c, b) \<Rightarrow>
        (case UpsertInternal cd st kind newItem env b of
           None \<Rightarrow> None
         | Some ((r, err), b') \<Rightarrow>
             if err \<noteq> None \<or> GetCacheTTL st = 0 then Some (err, c, b')
             else Some (None,
                        c\<lparr>item_cache := (item_cache c)((kind, GetKey newItem) \<mapsto>
                                             (r, expiry_for (GetCacheTTL st) now)),
                          all_cache := (all_cache c)(kind := None)\<rparr>, b')))"

section \<open>Sample data\<close>

text \<open>
  Two kinds, a few items and a small codec over them, for evaluating the operations
  on concrete inputs. The codec fails on any item or text outside its table.
\<close>

definition features :: kind where
  "features = Kind ''features''"


definition flagA1 :: item where
  "flagA1 = \<lparr>GetKey = ''flagA'', GetVersion = 1, IsDeleted = False, payload = ''on''\<rparr>"

definition flagA2 :: item where
  "flagA2 = \<lparr>GetKey = ''flagA'', GetVersion = 2, IsDeleted = False, payload = ''off''\<rparr>"

definition flagB1 :: item where
  "flagB1 = \<lparr>GetKey = ''flagB'', GetVersion = 1, IsDeleted = False, payload = ''on''\<rparr>"


definition table_enc :: "item \<Rightarrow> string" where
  "table_enc v = (if v = flagA1 then ''A1'' else if v = flagA2 then ''A2'' else ''B1'')"

definition table_codec :: codec where
  "table_codec =
     \<lparr>Marshal = (\<lambda>v. if v = flagA1 \<or> v = flagA2 \<or> v = flagB1 then Inr (table_enc v)
                     else Inl (JsonError ''unsupported type'')),
      UnmarshalItem = (\<lambda>k s. if s = ''A1'' then Inr flagA1
                              else if s = ''A2'' then Inr flagA2
                              else if s = ''B1'' then Inr flagB1
                              else Inl (JsonError ''unexpected input''))\<rparr>"

definition default_core :: redisFeatureStoreCore where
  "default_core = \<lparr>options = validateOptions []\<rparr>"

definition empty_backend :: backend where
  "empty_backend = \<lparr>store = Map.empty, sent = []\<rparr>"

text \<open>
  Two environments for \<open>UpsertInternal\<close>: in the first, another client stores version
  2 of \<open>flagA\<close> during the first pass, whose \<open>Exec\<close> is answered \<open>Exec_nil\<close>, and
  every later pass is undisturbed; in the second every \<open>Exec\<close> is answered \<open>Exec_nil\<close>.
  In a third, nothing fails but the \<open>Exec\<close>, which returns an error.
\<close>

definition quiet :: attempt_env where
  "quiet = \<lparr>watch_fault = None, hget_fault = None, hset_fault = None,
            concurrent = (\<lambda>s. s), exec_reply = Exec_ok\<rparr>"



definition env_exec_fails :: "nat \<Rightarrow> attempt_env" where
  "env_exec_fails i = quiet\<lparr>exec_reply := Exec_failed (RedisError ''connection reset by peer'')\<rparr>"

definition stored_A2 :: backend where
  "stored_A2 =
     \<lparr>store = [featuresKey default_core features \<mapsto> RHash [(hashTagKey ''flagA'', ''A2'')]],
      sent = []\<rparr>"



text \<open>
  A core with caching disabled and one whose entries never expire, configured through
  the \<open>CacheTTL\<close> option, and two caches holding one item.
\<close>

definition core_ttl0 :: redisFeatureStoreCore where
  "core_ttl0 = \<lparr>options = validateOptions [CacheTTL 0]\<rparr>"

definition core_forever :: redisFeatureStoreCore where
  "core_forever = \<lparr>options = validateOptions [CacheTTL (- 1)]\<rparr>"

definition cached_A2 :: cache where
  "cached_A2 = empty_cache\<lparr>item_cache := [(features, ''flagA'') \<mapsto> (Some flagA2, None)]\<rparr>"

definition cached_A1 :: cache where
  "cached_A1 = empty_cache\<lparr>item_cache := [(features, ''flagA'') \<mapsto> (Some flagA1, None)]\<rparr>"


text \<open>
  A collection key holds no entry for a field when the key is absent, or is a hash
  without that field.
\<close>

definition holds_no_entry :: "redis \<Rightarrow> string \<Rightarrow> string \<Rightarrow> bool" where
  "holds_no_entry s k f =
     (case s k of
        None \<Rightarrow> True
      | Some (RHash h) \<Rightarrow> map_of h f = None
      | Some (RStr _) \<Rightarrow> False)"

section \<open>Vocabulary for the statements\<close>


text \<open>The requests such a pass sends.\<close>

definition upsert_requests :: "codec \<Rightarrow> redisFeatureStoreCore \<Rightarrow> kind \<Rightarrow> item \<Rightarrow> cmd list" where
  "upsert_requests cd st kind newItem =
     [WATCH (featuresKey st kind),
      HGET (featuresKey st kind) (hashTagKey (GetKey newItem)),
      TX_EXEC [HSET (featuresKey st kind) (hashTagKey (GetKey newItem))
                 (case Marshal cd newItem of Inl _ \<Rightarrow> [] | Inr data \<Rightarrow> data)]]"









section \<open>Properties\<close>

subsection \<open>Key tagging\<close>

lemma tag_no_straddle:
  assumes "prefix ''.{ld}'' (key @ ''.{ld}'')" "key \<noteq> []"
  shows "prefix ''.{ld}'' key"
proof (cases key)
  case Nil with assms show ?thesis by simp
next
  case k1: (Cons a r1)
  show ?thesis
  proof (cases r1)
    case Nil with assms k1 show ?thesis by simp
  next
    case k2: (Cons b r2)
    show ?thesis
    proof (cases r2)
      case Nil with assms k1 k2 show ?thesis by simp
    next
      case k3: (Cons c r3)
      show ?thesis
      proof (cases r3)
        case Nil with assms k1 k2 k3 show ?thesis by simp
      next
        case k4: (Cons d r4)
        show ?thesis
        proof (cases r4)
          case Nil with assms k1 k2 k3 k4 show ?thesis by simp
        next
          case (Cons e r5) with assms k1 k2 k3 k4 show ?thesis by simp
        qed
      qed
    qed
  qed
qed

lemma Replace_all_append_old:
  "old \<noteq> [] \<Longrightarrow> (\<And>k. k \<noteq> [] \<Longrightarrow> prefix old (k @ old) \<Longrightarrow> prefix old k)
   \<Longrightarrow> strings_Replace_all old (key @ old) = strings_Replace_all old key"
proof (induction old key rule: strings_Replace_all.induct)
  case (1 old)
  then have "strings_Replace_all old old = []"
    by (cases old) simp_all
  then show ?case by simp
next
  case (2 old c cs)
  note ne = 2(3) and ns = 2(4)
  show ?case
  proof (cases "prefix old (c # cs)")
    case True
    then obtain r where r: "c # cs = old @ r" by (auto simp: prefix_def)
    have d1: "drop (length old) (c # cs) = r" unfolding r by simp
    have d2: "drop (length old) (c # (cs @ old)) = r @ old"
      using r by (metis append_Cons append_assoc append_eq_conv_conj)
    have p2: "prefix old (c # (cs @ old))"
      using True by (metis append_Cons prefix_prefix)
    have "strings_Replace_all old ((c # cs) @ old) = strings_Replace_all old (r @ old)"
      using ne p2 d2 by simp
    moreover have "strings_Replace_all old (c # cs) = strings_Replace_all old r"
      using ne True d1 by simp
    moreover have "strings_Replace_all old (r @ old) = strings_Replace_all old r"
      using 2(1)[OF _ ne ns] True ne d1 by simp
    ultimately show ?thesis by simp
  next
    case False
    then have F2: "\<not> prefix old (c # (cs @ old))"
      using ns[of "c # cs"] by auto
    have "strings_Replace_all old (cs @ old) = strings_Replace_all old cs"
      using 2(2)[OF _ ne ns] False by simp
    then show ?thesis using False F2 by simp
  qed
qed

lemma Replace_all_absent:
  "\<not> sublist old s \<Longrightarrow> strings_Replace_all old s = s"
  by (induction old s rule: strings_Replace_all.induct) (auto simp: sublist_Cons_right)

lemma Replace_all_length_le: "length (strings_Replace_all old s) \<le> length s"
  by (induction old s rule: strings_Replace_all.induct) (auto simp: le_Suc_eq)

lemma Replace_all_present:
  "old \<noteq> [] \<Longrightarrow> sublist old s \<Longrightarrow> length (strings_Replace_all old s) + length old \<le> length s"
proof (induction old s rule: strings_Replace_all.induct)
  case (1 old)
  then show ?case by simp
next
  case (2 old c cs)
  show ?case
  proof (cases "prefix old (c # cs)")
    case True
    have "length (strings_Replace_all old (drop (length old) (c # cs)))
            \<le> length (drop (length old) (c # cs))"
      by (rule Replace_all_length_le)
    moreover have "length old \<le> length (c # cs)" using True by (rule prefix_length_le)
    ultimately show ?thesis using True 2(3) by simp
  next
    case False
    then have "sublist old cs" using 2(4) by (simp add: sublist_Cons_right)
    then show ?thesis using False 2(2,3) by simp
  qed
qed

lemma removeHashTagKey_hashTagKey:
  "removeHashTagKey (hashTagKey key) = removeHashTagKey key"
proof -
  have "strings_Replace_all ''.{ld}'' (key @ ''.{ld}'') = strings_Replace_all ''.{ld}'' key"
  proof (rule Replace_all_append_old)
    show "''.{ld}'' \<noteq> []" by simp
  next
    fix k :: string
    assume "k \<noteq> []" "prefix ''.{ld}'' (k @ ''.{ld}'')"
    then show "prefix ''.{ld}'' k" using tag_no_straddle by blast
  qed
  then show ?thesis
    by (simp add: removeHashTagKey_def hashTagKey_def hashtag_def)
qed

lemma roundtrip_untagged:
  assumes "\<not> sublist (''.'' @ hashtag) key"
  shows "removeHashTagKey (hashTagKey key) = key"
proof -
  have "removeHashTagKey key = key"
    using assms by (simp add: removeHashTagKey_def Replace_all_absent)
  then show ?thesis by (simp only: removeHashTagKey_hashTagKey)
qed

lemma roundtrip_tagged:
  assumes "sublist (''.'' @ hashtag) key"
  shows "length (removeHashTagKey (hashTagKey key)) + 5 \<le> length key"
proof -
  have "length (removeHashTagKey key) + 5 \<le> length key"
    using Replace_all_present[of "''.'' @ hashtag" key] assms
    by (simp add: removeHashTagKey_def hashtag_def)
  then show ?thesis by (simp only: removeHashTagKey_hashTagKey)
qed

lemma getall_range_tagged:
  assumes "\<And>k v. (k, v) \<in> set items \<Longrightarrow>
             \<not> sublist (''.'' @ hashtag) k \<and> UnmarshalItem cd kind (enc v) = Inr v"
  shows "getall_range cd kind err (map (\<lambda>(k, v). (hashTagKey k, enc v)) items) results
         = (Some (results ++ map_of (rev items)), None)"
  using assms
proof (induction items arbitrary: results)
  case Nil
  then show ?case by simp
next
  case (Cons a items)
  obtain k v where a: "a = (k, v)" by (cases a)
  have h: "\<not> sublist (''.'' @ hashtag) k" "UnmarshalItem cd kind (enc v) = Inr v"
    using Cons.prems[of k v] a by auto
  have IH: "getall_range cd kind err (map (\<lambda>(k, v). (hashTagKey k, enc v)) items)
              (results(k \<mapsto> v))
            = (Some (results(k \<mapsto> v) ++ map_of (rev items)), None)"
  proof (rule Cons.IH)
    fix k' v' assume "(k', v') \<in> set items"
    then show "\<not> sublist (''.'' @ hashtag) k' \<and> UnmarshalItem cd kind (enc v') = Inr v'"
      using Cons.prems[of k' v'] by simp
  qed
  have "results(k \<mapsto> v) ++ map_of (rev items) = results ++ map_of (rev items @ [(k, v)])"
    by (simp add: map_add_def fun_eq_iff split: option.splits)
  then show ?case using a h IH roundtrip_untagged[of k] by simp
qed

lemma map_of_rev_distinct:
  "distinct (map fst xs) \<Longrightarrow> map_of (rev xs) = map_of xs"
proof (rule map_of_eqI)
  show "set (map fst (rev xs)) = set (map fst xs)" by simp
next
  assume d: "distinct (map fst xs)"
  show "\<forall>k\<in>set (map fst (rev xs)). map_of (rev xs) k = map_of xs k"
  proof
    fix k assume "k \<in> set (map fst (rev xs))"
    then obtain v where kv: "(k, v) \<in> set xs" by auto
    have "distinct (map fst (rev xs))" using d by (simp add: rev_map[symmetric])
    then have "map_of (rev xs) k = Some v" using kv by (intro map_of_is_SomeI) simp_all
    moreover have "map_of xs k = Some v" using d kv by (rule map_of_is_SomeI)
    ultimately show "map_of (rev xs) k = map_of xs k" by simp
  qed
qed

text \<open>
  Claim C8. A key without the substring \<open>.{ld}\<close> comes back unchanged from
  \<open>removeHashTagKey (hashTagKey key)\<close>; a key that contains it does not come back (the
  result is at least five characters shorter than the key, every occurrence met by the
  scan being dropped). Hence \<open>GetAllInternal\<close>, reading a hash whose fields are the
  tagged keys of items stored under untagged, pairwise different keys, returns exactly
  those items under exactly those keys.
\<close>

theorem hashTagKey_roundtrip:
  "(\<not> sublist (''.'' @ hashtag) key \<longrightarrow> removeHashTagKey (hashTagKey key) = key) \<and>
   (sublist (''.'' @ hashtag) key \<longrightarrow>
      removeHashTagKey (hashTagKey key) \<noteq> key \<and>
      length (removeHashTagKey (hashTagKey key)) + 5 \<le> length key) \<and>
   ((\<forall>(k, v) \<in> set items. \<not> sublist (''.'' @ hashtag) k \<and> UnmarshalItem cd kind (enc v) = Inr v) \<and>
    distinct (map fst items) \<and>
    store b (featuresKey st kind) = Some (RHash (map (\<lambda>(k, v). (hashTagKey k, enc v)) items)) \<longrightarrow>
      fst (GetAllInternal cd st None kind b) = (Some (map_of items), None))"
proof (intro conjI impI)
  assume "\<not> sublist (''.'' @ hashtag) key"
  then show "removeHashTagKey (hashTagKey key) = key" by (rule roundtrip_untagged)
next
  assume t: "sublist (''.'' @ hashtag) key"
  show "length (removeHashTagKey (hashTagKey key)) + 5 \<le> length key"
    using t by (rule roundtrip_tagged)
  then show "removeHashTagKey (hashTagKey key) \<noteq> key" by auto
next
  assume a: "(\<forall>(k, v) \<in> set items. \<not> sublist (''.'' @ hashtag) k \<and> UnmarshalItem cd kind (enc v) = Inr v) \<and>
    distinct (map fst items) \<and>
    store b (featuresKey st kind) = Some (RHash (map (\<lambda>(k, v). (hashTagKey k, enc v)) items))"
  have "getall_range cd kind None (map (\<lambda>(k, v). (hashTagKey k, enc v)) items) Map.empty
        = (Some (Map.empty ++ map_of (rev items)), None)"
    by (rule getall_range_tagged) (use a in auto)
  then show "fst (GetAllInternal cd st None kind b) = (Some (map_of items), None)"
    using a by (simp add: GetAllInternal_def HGetAll_def map_of_rev_distinct)
qed

theorem hashTagKey_roundtrip_witness:
  "removeHashTagKey (hashTagKey ''flagA'') = ''flagA'' \<and>
   removeHashTagKey (hashTagKey ''flag.{ld}A'') \<noteq> ''flag.{ld}A'' \<and>
   fst (GetAllInternal table_codec default_core None features
          \<lparr>store = [featuresKey default_core features \<mapsto> RHash [(hashTagKey ''flagA'', ''A1'')]], sent = []\<rparr>)
     = (Some [''flagA'' \<mapsto> flagA1], None)"
proof -
  have n: "\<not> sublist (''.'' @ hashtag) ''flagA''"
    by (simp add: hashtag_def sublist_Cons_right)
  have y: "sublist (''.'' @ hashtag) ''flag.{ld}A''"
    by (simp add: hashtag_def sublist_Cons_right)
  have e: "table_enc flagA1 = ''A1''" by (simp add: table_enc_def)
  have u: "UnmarshalItem table_codec features (table_enc flagA1) = Inr flagA1"
    by (simp add: table_codec_def e)
  show ?thesis
    using hashTagKey_roundtrip[of "''flagA''" "[(''flagA'', flagA1)]" table_codec features table_enc
        "\<lparr>store = [featuresKey default_core features \<mapsto> RHash [(hashTagKey ''flagA'', ''A1'')]], sent = []\<rparr>" default_core]
      hashTagKey_roundtrip[of "''flag.{ld}A''" "[]" table_codec features table_enc empty_backend default_core]
      n y e u 
    by simp
qed

subsection \<open>Reads and probes\<close>


text \<open>
  Claim C10. When the existence check fails, \<open>InitializedInternal\<close> answers false and
  the error is dropped; it answers true only when the check went through and the marker
  key exists.
\<close>

theorem InitializedInternal_discards_error:
  "fst (InitializedInternal st (Some e) b) = False \<and>
   (fst (InitializedInternal st fault b) \<longleftrightarrow> fault = None \<and> store b (store_initedKey st) \<noteq> None)"
  by (cases fault) (simp_all add: InitializedInternal_def Exists_def)

text \<open>
  Claim C9. When the backend holds no entry for the kind and key, \<open>GetInternal\<close>
  returns a nil item and a nil error; a failure of the backend (any error but the
  client's nil reply) comes back as that error, with a nil item.
\<close>

theorem GetInternal_missing_key:
  "(holds_no_entry (store b) (featuresKey st kind) (hashTagKey key) \<longrightarrow>
      fst (GetInternal cd st None kind key b) = (None, None)) \<and>
   (e \<noteq> RedisNil \<longrightarrow> fst (GetInternal cd st (Some e) kind key b) = (None, Some e))"
  by (auto simp: GetInternal_def HGet_def holds_no_entry_def split: option.splits rval.splits)

theorem GetInternal_missing_key_witness:
  "holds_no_entry (store empty_backend) (featuresKey default_core features) (hashTagKey ''flagA'') \<and>
   fst (GetInternal table_codec default_core None features ''flagA'' empty_backend) = (None, None) \<and>
   RedisError ''i/o timeout'' \<noteq> RedisNil \<and>
   fst (GetInternal table_codec default_core (Some (RedisError ''i/o timeout'')) features ''flagA'' empty_backend)
     = (None, Some (RedisError ''i/o timeout''))"
  using GetInternal_missing_key[where b = empty_backend and st = default_core and kind = features
      and key = "''flagA''" and e = "RedisError ''i/o timeout''" and cd = table_codec]
  by (simp add: holds_no_entry_def empty_backend_def)

subsection \<open>The update loop\<close>

lemma GetInternal_backend:
  "snd (GetInternal cd st fault kind key b) =
     \<lparr>store = store b, sent = sent b @ [HGET (featuresKey st kind) (hashTagKey key)]\<rparr>"
  by (auto simp: GetInternal_def HGet_def split: option.splits rval.splits sum.splits)







text \<open>
  Claim C1. When the collection holds an item under the new item's key, that item
  decodes, its version is greater than or equal to the new item's, and the \<open>WATCH\<close>
  and the read go through, \<open>UpsertInternal\<close> returns the stored item with a nil error;
  the keyspace is unchanged, and the only requests sent are the \<open>WATCH\<close> and the read.
\<close>

theorem UpsertInternal_stale_write_dropped:
  assumes "watch_fault (env 0) = None" "hget_fault (env 0) = None"
    and "store b (featuresKey st kind) = Some (RHash h)"
    and "map_of h (hashTagKey (GetKey newItem)) = Some bytes"
    and "UnmarshalItem cd kind bytes = Inr old"
    and "GetVersion old \<ge> GetVersion newItem"
  shows "UpsertInternal cd st kind newItem env b =
           Some ((Some old, None),
                 \<lparr>store = store b,
                  sent = sent b @ [WATCH (featuresKey st kind),
                                   HGET (featuresKey st kind) (hashTagKey (GetKey newItem))]\<rparr>)"
  unfolding UpsertInternal_def
  by (subst upsert_loop.simps)
     (simp add: upsert_watch_def Let_def GetInternal_def HGet_def assms)

theorem UpsertInternal_stale_write_dropped_witness:
  "UpsertInternal table_codec default_core features flagA1 (\<lambda>i. quiet) stored_A2 =
     Some ((Some flagA2, None),
           \<lparr>store = store stored_A2,
            sent = [WATCH (featuresKey default_core features),
                    HGET (featuresKey default_core features) (hashTagKey ''flagA'')]\<rparr>)"
  using UpsertInternal_stale_write_dropped[where env = "\<lambda>i. quiet" and b = stored_A2 and st = default_core
      and kind = features and h = "[(hashTagKey ''flagA'', ''A2'')]" and newItem = flagA1
      and bytes = "''A2''" and cd = table_codec and old = flagA2]
  by (simp add: quiet_def stored_A2_def flagA1_def flagA2_def table_codec_def)




text \<open>
  Claim C3 asks that every backend error other than a detected conflict reach the
  caller. The error of \<open>Exec\<close> does not: on an empty backend, with nothing failing
  but the \<open>Exec\<close>, which returns an error and writes nothing, \<open>UpsertInternal\<close>
  returns the new item with a nil error, and the item is not stored.
\<close>

theorem UpsertInternal_exec_error_masked:
  "UpsertInternal table_codec default_core features flagA1 env_exec_fails empty_backend =
     Some ((Some flagA1, None),
           \<lparr>store = Map.empty, sent = upsert_requests table_codec default_core features flagA1\<rparr>)"
  unfolding UpsertInternal_def
  by (subst upsert_loop.simps)
     (simp add: upsert_watch_def Let_def GetInternal_def HGet_def TxExec_def env_exec_fails_def
        quiet_def empty_backend_def table_codec_def upsert_requests_def flagA1_def)

subsection \<open>Initialisation\<close>

















subsection \<open>Caching\<close>

lemma GetAllInternal_backend:
  "snd (GetAllInternal cd st fault kind b) =
     \<lparr>store = store b, sent = sent b @ [HGETALL (featuresKey st kind)]\<rparr>"
  by (auto simp: GetAllInternal_def HGetAll_def split: option.splits rval.splits prod.splits)

lemma sample_keys:
  "featuresKey core_ttl0 features = ''launchdarkly:features.{ld}''"
  "featuresKey core_forever features = ''launchdarkly:features.{ld}''"
  "featuresKey default_core features = ''launchdarkly:features.{ld}''"
  "GetCacheTTL core_ttl0 = 0" "GetCacheTTL core_forever = - 1"
  by (simp_all add: featuresKey_def core_ttl0_def core_forever_def default_core_def validateOptions_def
      DefaultPrefix_def hashtag_def features_def GetCacheTTL_def)

lemma sample_upsert_commits:
  "UpsertInternal table_codec core_forever features flagA1 (\<lambda>i. quiet) empty_backend =
     Some ((Some flagA1, None),
           \<lparr>store = [''launchdarkly:features.{ld}'' \<mapsto> RHash [(hashTagKey ''flagA'', ''A1'')]],
            sent = upsert_requests table_codec core_forever features flagA1\<rparr>)"
  unfolding UpsertInternal_def
  by (subst upsert_loop.simps)
     (simp add: upsert_watch_def Let_def GetInternal_def HGet_def TxExec_def sample_keys
        quiet_def empty_backend_def table_codec_def upsert_requests_def flagA1_def table_enc_def)

text \<open>
  Claim C6. With a TTL of zero every \<open>Get\<close> and \<open>GetAll\<close> of the wrapper sends its
  read to the backend and returns what the backend returns, whatever the cache holds.
  With a negative TTL, once a \<open>Get\<close> that missed the cache has returned a result
  without error, a second \<open>Get\<close> of the same key returns that result at any later
  time and on any backend, sending nothing; after an \<open>Upsert\<close> of that key through the
  same wrapper has succeeded, \<open>Get\<close> returns the item that the \<open>Upsert\<close> returned.
\<close>

theorem wrapper_ttl_modes:
  "(GetCacheTTL st = 0 \<longrightarrow>
      wrapper_Get cd st now fault kind key (c, b) =
        (fst (GetInternal cd st fault kind key b), c,
         \<lparr>store = store b, sent = sent b @ [HGET (featuresKey st kind) (hashTagKey key)]\<rparr>) \<and>
      wrapper_All cd st now fault kind (c, b) =
        (fst (GetAllInternal cd st fault kind b), c,
         \<lparr>store = store b, sent = sent b @ [HGETALL (featuresKey st kind)]\<rparr>)) \<and>
   (GetCacheTTL st < 0 \<and> item_cache c (kind, key) = None \<and>
    wrapper_Get cd st now fault kind key (c, b) = ((v, None), c1, b1) \<longrightarrow>
      wrapper_Get cd st now2 fault2 kind key (c1, b2) = ((v, None), c1, b2) \<and>
      (GetKey newItem = key \<and>
       wrapper_Upsert cd st now2 env kind newItem (c1, b2) = Some (None, c3, b3) \<longrightarrow>
         (\<exists>w. UpsertInternal cd st kind newItem env b2 = Some ((w, None), b3) \<and>
              wrapper_Get cd st now3 fault3 kind key (c3, b4) = ((w, None), c3, b4))))"
proof (intro conjI impI)
  assume z: "GetCacheTTL st = 0"
  show "wrapper_Get cd st now fault kind key (c, b) =
        (fst (GetInternal cd st fault kind key b), c,
         \<lparr>store = store b, sent = sent b @ [HGET (featuresKey st kind) (hashTagKey key)]\<rparr>)"
    using GetInternal_backend[of cd st fault kind key b]
    by (cases "GetInternal cd st fault kind key b") (simp add: wrapper_Get_def z)
  show "wrapper_All cd st now fault kind (c, b) =
        (fst (GetAllInternal cd st fault kind b), c,
         \<lparr>store = store b, sent = sent b @ [HGETALL (featuresKey st kind)]\<rparr>)"
    using GetAllInternal_backend[of cd st fault kind b]
    by (cases "GetAllInternal cd st fault kind b") (simp add: wrapper_All_def z)
next
  assume a: "GetCacheTTL st < 0 \<and> item_cache c (kind, key) = None \<and>
    wrapper_Get cd st now fault kind key (c, b) = ((v, None), c1, b1)"
  then have c1: "item_cache c1 (kind, key) = Some (v, None)"
    by (auto simp: wrapper_Get_def expiry_for_def split: prod.splits if_splits)
  show g2: "wrapper_Get cd st now2 fault2 kind key (c1, b2) = ((v, None), c1, b2)"
    using a c1 by (simp add: wrapper_Get_def live_def)
  assume u: "GetKey newItem = key \<and>
       wrapper_Upsert cd st now2 env kind newItem (c1, b2) = Some (None, c3, b3)"
  then obtain w where w: "UpsertInternal cd st kind newItem env b2 = Some ((w, None), b3)"
      and c3: "item_cache c3 (kind, key) = Some (w, None)"
    using a by (auto simp: wrapper_Upsert_def expiry_for_def split: option.splits prod.splits if_splits)
  have "wrapper_Get cd st now3 fault3 kind key (c3, b4) = ((w, None), c3, b4)"
    using a c3 by (simp add: wrapper_Get_def live_def)
  then show "\<exists>w. UpsertInternal cd st kind newItem env b2 = Some ((w, None), b3) \<and>
              wrapper_Get cd st now3 fault3 kind key (c3, b4) = ((w, None), c3, b4)"
    using w by blast
qed

theorem wrapper_ttl_modes_witness:
  "wrapper_Get table_codec core_ttl0 0 None features ''flagA'' (empty_cache, stored_A2) =
     ((Some flagA2, None), empty_cache,
      \<lparr>store = store stored_A2, sent = [HGET ''launchdarkly:features.{ld}'' (hashTagKey ''flagA'')]\<rparr>) \<and>
   wrapper_Get table_codec core_forever 0 None features ''flagA'' (empty_cache, stored_A2) =
     ((Some flagA2, None), cached_A2,
      \<lparr>store = store stored_A2, sent = [HGET ''launchdarkly:features.{ld}'' (hashTagKey ''flagA'')]\<rparr>) \<and>
   wrapper_Get table_codec core_forever 1000000000000 None features ''flagA'' (cached_A2, empty_backend) =
     ((Some flagA2, None), cached_A2, empty_backend) \<and>
   wrapper_Get table_codec core_forever 2000000000000 None features ''flagA''
       (cached_A1, empty_backend) =
     ((Some flagA1, None), cached_A1, empty_backend)"
proof -
  let ?b1 = "\<lparr>store = store stored_A2, sent = [HGET ''launchdarkly:features.{ld}'' (hashTagKey ''flagA'')]\<rparr>"
  let ?b3 = "\<lparr>store = [''launchdarkly:features.{ld}'' \<mapsto> RHash [(hashTagKey ''flagA'', ''A1'')]],
            sent = upsert_requests table_codec core_forever features flagA1\<rparr>"
  have g0: "fst (GetInternal table_codec core_ttl0 None features ''flagA'' stored_A2) = (Some flagA2, None)"
    by (simp add: GetInternal_def HGet_def stored_A2_def sample_keys table_codec_def)
  have first: "wrapper_Get table_codec core_forever 0 None features ''flagA'' (empty_cache, stored_A2) =
     ((Some flagA2, None), cached_A2, ?b1)"
    by (simp add: wrapper_Get_def GetInternal_def HGet_def stored_A2_def sample_keys table_codec_def
        empty_cache_def cached_A2_def expiry_for_def)
  have k: "GetKey flagA1 = ''flagA''" by (simp add: flagA1_def)
  have up: "wrapper_Upsert table_codec core_forever 1000000000000 (\<lambda>i. quiet) features flagA1
              (cached_A2, empty_backend) = Some (None, cached_A1, ?b3)"
    by (simp add: wrapper_Upsert_def sample_upsert_commits sample_keys expiry_for_def cached_A2_def
        cached_A1_def empty_cache_def k)
  have e: "item_cache empty_cache (features, ''flagA'') = None" by (simp add: empty_cache_def)
  note T0 = wrapper_ttl_modes[where st = core_ttl0 and cd = table_codec and now = 0 and fault = None
      and kind = features and key = "''flagA''" and c = empty_cache and b = stored_A2]
  note T1 = wrapper_ttl_modes[where st = core_forever and cd = table_codec and now = 0 and fault = None
      and kind = features and key = "''flagA''" and c = empty_cache and b = stored_A2
      and v = "Some flagA2" and ?c1.0 = cached_A2 and ?b1.0 = ?b1
      and ?now2.0 = 1000000000000 and ?fault2.0 = None and ?b2.0 = empty_backend
      and newItem = flagA1 and env = "\<lambda>i. quiet" and ?c3.0 = cached_A1 and ?b3.0 = ?b3
      and ?now3.0 = 2000000000000 and ?fault3.0 = None and ?b4.0 = empty_backend]
  have a: "wrapper_Get table_codec core_ttl0 0 None features ''flagA'' (empty_cache, stored_A2) =
     ((Some flagA2, None), empty_cache, ?b1)"
    using T0 g0 by (simp add: sample_keys stored_A2_def)
  have b: "wrapper_Get table_codec core_forever 1000000000000 None features ''flagA'' (cached_A2, empty_backend) =
     ((Some flagA2, None), cached_A2, empty_backend)"
    using T1 first e by (simp add: sample_keys)
  have c: "wrapper_Get table_codec core_forever 2000000000000 None features ''flagA''
       (cached_A1, empty_backend) = ((Some flagA1, None), cached_A1, empty_backend)"
    using T1 first e up k sample_upsert_commits by (simp add: sample_keys)
  show ?thesis using a first b c by simp
qed

subsection \<open>The marker of initialisation\<close>















end
